theory Spec2Isabelle
  imports Main
begin

section \<open>Python values, exceptions and outcomes\<close>

text \<open>
  The values that travel through \<^verbatim>\<open>rp_job.py\<close> are JSON-shaped: the parsed body of a
  poll response, the job dict, what a handler returns, and the result envelope handed
  back to the caller. A Python dict with string keys is an association list in insertion
  order; \<^verbatim>\<open>None\<close> is \<open>PNone\<close>.
\<close>

datatype pyval =
    PNone
  | PBool bool
  | PInt int
  | PStr string
  | PList "pyval list"
  | PDict "(string \<times> pyval) list"

text \<open>Truth value testing, as \<^verbatim>\<open>if error_msg:\<close> performs it.\<close>

fun truthy :: "pyval \<Rightarrow> bool" where
  "truthy PNone = False"
| "truthy (PBool b) = b"
| "truthy (PInt n) = (n \<noteq> 0)"
| "truthy (PStr s) = (s \<noteq> [])"
| "truthy (PList xs) = (xs \<noteq> [])"
| "truthy (PDict d) = (d \<noteq> [])"

text \<open>
  A raised object. \<open>is_Exception\<close> tells whether it is an instance of the class
  \<^verbatim>\<open>Exception\<close>, which is what \<^verbatim>\<open>except Exception\<close> intercepts
  (\<^verbatim>\<open>KeyboardInterrupt\<close>, \<^verbatim>\<open>SystemExit\<close> and \<^verbatim>\<open>asyncio.CancelledError\<close> are not);
  \<open>exn_type\<close> is the text of \<^verbatim>\<open>str(type(err))\<close> and \<open>exn_str\<close> the text of
  \<^verbatim>\<open>str(err)\<close>.
\<close>

datatype exn = Exn (is_Exception: bool) (exn_type: string) (exn_str: string)

datatype 'a outcome = Returns 'a | Raises exn

definition KeyError :: "string \<Rightarrow> exn" where
  "KeyError k = Exn True ''<class 'KeyError'>'' ([CHR 0x27] @ k @ [CHR 0x27])"

definition TypeError :: "string \<Rightarrow> exn" where
  "TypeError msg = Exn True ''<class 'TypeError'>'' msg"

definition AttributeError :: "string \<Rightarrow> exn" where
  "AttributeError msg = Exn True ''<class 'AttributeError'>'' msg"

text \<open>\<^verbatim>\<open>d.get(k, None)\<close> and \<^verbatim>\<open>d.pop(k, None)\<close> on a dict.\<close>

definition dict_get :: "(string \<times> pyval) list \<Rightarrow> string \<Rightarrow> pyval" where
  "dict_get d k = (case map_of d k of None \<Rightarrow> PNone | Some v \<Rightarrow> v)"

definition dict_pop :: "(string \<times> pyval) list \<Rightarrow> string \<Rightarrow> pyval \<times> (string \<times> pyval) list" where
  "dict_pop d k = (dict_get d k, filter (\<lambda>kv. fst kv \<noteq> k) d)"

section \<open>The collaborators of the module\<close>

text \<open>
  The job and the result envelope are Python dicts whose keys are read and written one
  at a time: maps from key to value.
\<close>

type_synonym job = "string \<rightharpoonup> pyval"

type_synonym run_result = "string \<rightharpoonup> pyval"

text \<open>
  What surrounds the module and is not in it: the process environment
  (\<^verbatim>\<open>os.environ\<close>), the package version constant, the size check of
  \<^verbatim>\<open>rp_tips.check_return_size\<close> (a parameter: \<open>Some e\<close> when it raises \<open>e\<close> on the
  envelope, \<open>None\<close> when it accepts it), and the two standard-library renderers
  \<^verbatim>\<open>json.dumps\<close> and \<^verbatim>\<open>traceback.format_exc\<close>.
\<close>

record env =
  environ :: "string \<rightharpoonup> string"
  runpod_version :: string
  check_return_size :: "run_result \<Rightarrow> exn option"
  json_dumps :: "pyval \<Rightarrow> string"
  format_exc :: "exn \<Rightarrow> string"

definition environ_get :: "env \<Rightarrow> string \<Rightarrow> string \<Rightarrow> string" where
  "environ_get e k dflt = (case environ e k of None \<Rightarrow> dflt | Some v \<Rightarrow> v)"

text \<open>
  A handler is called with the job; the call raises or returns, and what it returns is a
  plain value or an awaitable, whose awaiting in turn raises or yields the value.
  This handler leaves the job dict as it is given; a handler that changes it comes
  further down.
\<close>

datatype handler_return = Plain pyval | Awaitable "pyval outcome"

type_synonym handler = "job \<Rightarrow> handler_return outcome"

section \<open>\<^verbatim>\<open>run_job\<close>\<close>

text \<open>
  Every log line of \<^verbatim>\<open>run_job\<close> formats \<^verbatim>\<open>job["id"]\<close>; the subscript raises
  \<^verbatim>\<open>KeyError\<close> when the key is missing, and that is all of a log line that can
  change the control flow.
\<close>

definition log_job_id :: "job \<Rightarrow> unit outcome" where
  "log_job_id job = (case job ''id'' of None \<Rightarrow> Raises (KeyError ''id'') | Some v \<Rightarrow> Returns ())"

text \<open>
  Lines 120 to 138: the shape of the envelope. A dict gives up its \<^verbatim>\<open>error\<close> and
  \<^verbatim>\<open>refresh_worker\<close> entries and becomes the output; anything else is the output as
  it is; an output equal to \<^verbatim>\<open>{}\<close> is taken out again.
\<close>

definition normalize_output :: "pyval \<Rightarrow> run_result" where
  "normalize_output job_output =
    (let run_result =
           (case job_output of
              PDict d \<Rightarrow>
                (let (error_msg, d1) = dict_pop d ''error'';
                     (refresh_worker, d2) = dict_pop d1 ''refresh_worker'';
                     r0 = [''output'' \<mapsto> PDict d2];
                     r1 = (if truthy error_msg then r0(''error'' \<mapsto> error_msg) else r0)
                 in (if truthy refresh_worker then r1(''stopPod'' \<mapsto> PBool True) else r1))
            | PBool b \<Rightarrow> [''output'' \<mapsto> PBool b]
            | _ \<Rightarrow> [''output'' \<mapsto> job_output])
     in (if run_result ''output'' = Some (PDict []) then run_result(''output'' := None)
         else run_result))"

text \<open>Lines 115 to 140: the body of the \<^verbatim>\<open>try\<close> block.\<close>

definition run_job_try :: "env \<Rightarrow> handler \<Rightarrow> job \<Rightarrow> run_result outcome" where
  "run_job_try e handler job =
    (case handler job of
       Raises err \<Rightarrow> Raises err
     | Returns handler_return \<Rightarrow>
        (case (case handler_return of Awaitable a \<Rightarrow> a | Plain v \<Rightarrow> Returns v) of
           Raises err \<Rightarrow> Raises err
         | Returns job_output \<Rightarrow>
            (case log_job_id job of
               Raises err \<Rightarrow> Raises err
             | Returns u \<Rightarrow>
                (let run_result = normalize_output job_output
                 in (case check_return_size e run_result of
                       Some err \<Rightarrow> Raises err
                     | None \<Rightarrow> Returns run_result)))))"

text \<open>Lines 143 to 154: the handler of \<^verbatim>\<open>except Exception as err\<close>.\<close>

definition error_info :: "env \<Rightarrow> exn \<Rightarrow> (string \<times> pyval) list" where
  "error_info e err =
    [(''error_type'', PStr (exn_type err)),
     (''error_message'', PStr (exn_str err)),
     (''error_traceback'', PStr (format_exc e err)),
     (''hostname'', PStr (environ_get e ''RUNPOD_POD_HOSTNAME'' ''unknown'')),
     (''worker_id'', PStr (environ_get e ''RUNPOD_POD_ID'' ''unknown'')),
     (''runpod_version'', PStr (runpod_version e))]"

definition run_job_except :: "env \<Rightarrow> job \<Rightarrow> exn \<Rightarrow> run_result outcome" where
  "run_job_except e job err =
    (case log_job_id job of
       Raises err' \<Rightarrow> Raises err'
     | Returns u \<Rightarrow> Returns [''error'' \<mapsto> PStr (json_dumps e (PDict (error_info e err)))])"

text \<open>
  The whole function: the log line before the \<^verbatim>\<open>try\<close>, the guarded body, the
  \<^verbatim>\<open>finally\<close> clause (whose own exception replaces whatever was pending), the return.
\<close>

definition run_job :: "env \<Rightarrow> handler \<Rightarrow> job \<Rightarrow> run_result outcome" where
  "run_job e handler job =
    (case log_job_id job of
       Raises err \<Rightarrow> Raises err
     | Returns u \<Rightarrow>
        (let guarded =
               (case run_job_try e handler job of
                  Returns run_result \<Rightarrow> Returns run_result
                | Raises err \<Rightarrow>
                    (if is_Exception err then run_job_except e job err else Raises err))
         in (case log_job_id job of
               Raises err \<Rightarrow> Raises err
             | Returns u \<Rightarrow> guarded)))"

subsection \<open>Handlers that change the job\<close>

text \<open>
  The handler is given the job dict itself and is free to change it
  (\<^verbatim>\<open>del job["id"]\<close>, \<^verbatim>\<open>job.pop("id")\<close>); \<^verbatim>\<open>run_job\<close> reads \<^verbatim>\<open>job["id"]\<close> again after
  the handler has run. Such a handler gives, with what the call returns or raises, the
  job dict as it is once the call and the awaiting of what it returned are over; between
  these two nothing reads the job.
\<close>

type_synonym st_handler = "job \<Rightarrow> job \<times> handler_return outcome"

text \<open>
  Lines 115 to 140 again, for such a handler: the job as the handler leaves it, and how
  the \<^verbatim>\<open>try\<close> block ends. The log line of line 118 reads the job as it is then.
\<close>

definition run_job_st_try :: "env \<Rightarrow> st_handler \<Rightarrow> job \<Rightarrow> job \<times> run_result outcome" where
  "run_job_st_try e handler job =
    (case handler job of
       (job', Raises err) \<Rightarrow> (job', Raises err)
     | (job', Returns handler_return) \<Rightarrow>
        (case (case handler_return of Awaitable a \<Rightarrow> a | Plain v \<Rightarrow> Returns v) of
           Raises err \<Rightarrow> (job', Raises err)
         | Returns job_output \<Rightarrow>
            (case log_job_id job' of
               Raises err \<Rightarrow> (job', Raises err)
             | Returns u \<Rightarrow>
                (let run_result = normalize_output job_output
                 in (case check_return_size e run_result of
                       Some err \<Rightarrow> (job', Raises err)
                     | None \<Rightarrow> (job', Returns run_result))))))"

text \<open>
  Lines 111 to 159 again: the first log line reads the job as it is given, the
  \<^verbatim>\<open>except\<close> and \<^verbatim>\<open>finally\<close> clauses read it as the handler has left it.
\<close>

definition run_job_st :: "env \<Rightarrow> st_handler \<Rightarrow> job \<Rightarrow> run_result outcome" where
  "run_job_st e handler job =
    (case log_job_id job of
       Raises err \<Rightarrow> Raises err
     | Returns u \<Rightarrow>
        (case run_job_st_try e handler job of
           (job', tried) \<Rightarrow>
            (let guarded =
                   (case tried of
                      Returns run_result \<Rightarrow> Returns run_result
                    | Raises err \<Rightarrow>
                        (if is_Exception err then run_job_except e job' err else Raises err))
             in (case log_job_id job' of
                   Raises err \<Rightarrow> Raises err
                 | Returns u \<Rightarrow> guarded))))"

section \<open>\<^verbatim>\<open>run_job_generator\<close>\<close>

text \<open>
  What a streaming handler returns is consumed one \<^verbatim>\<open>next\<close> at a time. The producer is
  the list of what these calls give, in order: \<open>Returns v\<close> when the call yields \<open>v\<close>,
  \<open>Raises err\<close> when it raises; the end of the list is exhaustion. It is an object to
  iterate with \<^verbatim>\<open>for\<close> or one to iterate with \<^verbatim>\<open>async for\<close>.
\<close>

datatype producer = Iterator "pyval outcome list" | AsyncIterator "pyval outcome list"

text \<open>
  The handler is known by whether \<^verbatim>\<open>inspect.isasyncgenfunction\<close> holds of it and by what
  calling it gives. The handler and its producer hold the job dict and may change it; the
  function reads \<^verbatim>\<open>job["id"]\<close> only in its \<^verbatim>\<open>except\<close> and \<^verbatim>\<open>finally\<close> clauses, so \<open>call\<close>
  gives, with the producer, the job dict as it is when the \<^verbatim>\<open>try\<close> block is left.
\<close>

record stream_handler =
  isasyncgenfunction :: bool
  call :: "job \<Rightarrow> job \<times> producer outcome"

text \<open>
  The two loops, \<^verbatim>\<open>for\<close> and \<^verbatim>\<open>async for\<close>: the envelopes yielded, and how the loop
  ends. Nothing is asked of the producer after it has raised.
\<close>

fun for_partials :: "pyval outcome list \<Rightarrow> run_result list \<times> unit outcome" where
  "for_partials [] = ([], Returns ())"
| "for_partials (Returns output_partial # rest) =
     (case for_partials rest of (ys, fin) \<Rightarrow> ([''output'' \<mapsto> output_partial] # ys, fin))"
| "for_partials (Raises err # rest) = ([], Raises err)"

text \<open>
  What the wrong loop raises: \<^verbatim>\<open>async for\<close> over an object without \<^verbatim>\<open>__aiter__\<close>, and
  \<^verbatim>\<open>for\<close> over an async generator.
\<close>

definition not_async_iterable :: exn where
  "not_async_iterable =
     TypeError ([CHR 0x27] @ ''async for' requires an object with __aiter__ method, got generator'')"

definition not_iterable :: exn where
  "not_iterable = TypeError ([CHR 0x27] @ ''async_generator' object is not iterable'')"

text \<open>Lines 170 to 176: the body of the \<^verbatim>\<open>try\<close> block, and the job as it is left.\<close>

definition run_job_generator_try ::
    "stream_handler \<Rightarrow> job \<Rightarrow> job \<times> run_result list \<times> unit outcome" where
  "run_job_generator_try handler job =
    (case call handler job of
       (job', Raises err) \<Rightarrow> (job', [], Raises err)
     | (job', Returns job_output) \<Rightarrow>
        (if isasyncgenfunction handler then
           (case job_output of
              AsyncIterator p \<Rightarrow> (job', for_partials p)
            | Iterator p \<Rightarrow> (job', [], Raises not_async_iterable))
         else
           (case job_output of
              Iterator p \<Rightarrow> (job', for_partials p)
            | AsyncIterator p \<Rightarrow> (job', [], Raises not_iterable))))"

text \<open>Line 179: the envelope of the \<^verbatim>\<open>except\<close> clause.\<close>

definition error_envelope :: "env \<Rightarrow> exn \<Rightarrow> run_result" where
  "error_envelope e err =
     [''error'' \<mapsto> PStr (''handler: '' @ exn_str err @ '' '' @ [CHR 0x0A]
                           @ ''traceback: '' @ format_exc e err)]"

text \<open>
  The whole generator, consumed to its end: the envelopes it yields and how it finishes.
  The \<^verbatim>\<open>except\<close> clause logs \<^verbatim>\<open>job["id"]\<close> before it yields the error envelope, and the
  \<^verbatim>\<open>finally\<close> clause logs it once more.
\<close>

definition run_job_generator ::
    "env \<Rightarrow> stream_handler \<Rightarrow> job \<Rightarrow> run_result list \<times> unit outcome" where
  "run_job_generator e handler job =
    (case run_job_generator_try handler job of
       (job', ys, fin) \<Rightarrow>
        (let guarded =
               (case fin of
                  Returns u \<Rightarrow> (ys, Returns ())
                | Raises err \<Rightarrow>
                    (if is_Exception err then
                       (case log_job_id job' of
                          Raises err' \<Rightarrow> (ys, Raises err')
                        | Returns u \<Rightarrow> (ys @ [error_envelope e err], Returns ()))
                     else (ys, Raises err)))
         in (case log_job_id job' of
               Raises err \<Rightarrow> (fst guarded, Raises err)
             | Returns u \<Rightarrow> guarded)))"

section \<open>\<^verbatim>\<open>get_job\<close>\<close>

text \<open>
  Modelled from the spec: the class \<^verbatim>\<open>Jobs\<close> of \<^verbatim>\<open>worker_state.py\<close>, which is not among
  the sources, is the tracked set of the spec (4.1), a set of job identifiers.
\<close>

type_synonym jobs = "pyval set"

text \<open>
  Modelled from the spec: the method \<^verbatim>\<open>Jobs.add_job\<close>, not among the sources. The spec (4.1)
  has \<^verbatim>\<open>add\<close> insert into the tracked set, with no error condition, idempotently.
\<close>

definition add_job :: "jobs \<Rightarrow> pyval \<Rightarrow> jobs" where
  "add_job job_list job_id = insert job_id job_list"

text \<open>
  Modelled from the spec: the method \<^verbatim>\<open>Jobs.get_job_list\<close>, not among the sources, taken by
  the truth value of what it returns. The spec (4.1) has the busy signal true iff the
  tracked set is non-empty.
\<close>

definition get_job_list :: "jobs \<Rightarrow> bool" where
  "get_job_list job_list \<longleftrightarrow> job_list \<noteq> {}"

text \<open>Lines 25 to 36; the constant \<^verbatim>\<open>JOB_GET_URL\<close> is a parameter.\<close>

definition job_get_url :: "string \<Rightarrow> jobs \<Rightarrow> string" where
  "job_get_url JOB_GET_URL job_list =
    (let job_in_progress = (if get_job_list job_list then ''1'' else ''0'')
     in JOB_GET_URL @ ''&job_in_progress='' @ job_in_progress)"

text \<open>
  A poll: \<^verbatim>\<open>session.get\<close> raises, or gives a response with a status and a body whose
  parsing by \<^verbatim>\<open>response.json()\<close> raises or gives a value.
\<close>

datatype response = Response (status: int) (json: "pyval outcome")

fun type_name :: "pyval \<Rightarrow> string" where
  "type_name PNone = ''NoneType''"
| "type_name (PBool b) = ''bool''"
| "type_name (PInt n) = ''int''"
| "type_name (PStr s) = ''str''"
| "type_name (PList xs) = ''list''"
| "type_name (PDict d) = ''dict''"

text \<open>
  \<^verbatim>\<open>v[k]\<close> with a string key: only a dict has such an item. (The texts of the
  \<^verbatim>\<open>TypeError\<close> are those of CPython 3.11.)
\<close>

fun subscript :: "pyval \<Rightarrow> string \<Rightarrow> pyval outcome" where
  "subscript (PDict d) k = (case map_of d k of None \<Rightarrow> Raises (KeyError k) | Some v \<Rightarrow> Returns v)"
| "subscript (PStr s) k = Raises (TypeError (''string indices must be integers, not 'str'' @ [CHR 0x27]))"
| "subscript (PList xs) k = Raises (TypeError ''list indices must be integers or slices, not str'')"
| "subscript v k = Raises (TypeError ([CHR 0x27] @ type_name v @ [CHR 0x27] @ '' object is not subscriptable''))"

text \<open>How a stretch of the loop body hands control on.\<close>

datatype ctl = Normal | Continue | Return pyval | Raise exn

text \<open>
  Lines 53 to 87, the body of the \<^verbatim>\<open>try\<close> block of one iteration, entered with
  \<^verbatim>\<open>next_job\<close> being \<^verbatim>\<open>None\<close>: the value of \<^verbatim>\<open>next_job\<close> when the block is left, and how
  it is left.
\<close>

definition get_job_try :: "bool \<Rightarrow> response outcome \<Rightarrow> pyval \<times> ctl" where
  "get_job_try retry resp =
    (case resp of
       Raises err \<Rightarrow> (PNone, Raise err)
     | Returns response \<Rightarrow>
        (if status response = 204 then
           (if \<not> retry then (PNone, Return PNone) else (PNone, Continue))
         else if status response = 400 then
           (if \<not> retry then (PNone, Return PNone) else (PNone, Continue))
         else if status response \<noteq> 200 then
           (if \<not> retry then (PNone, Return PNone) else (PNone, Continue))
         else
           (case json response of
              Raises err \<Rightarrow> (PNone, Raise err)
            | Returns next_job \<Rightarrow>
               (case next_job of
                  PDict d \<Rightarrow>
                    (let job_id = dict_get d ''id'';
                         job_input = dict_get d ''input''
                     in (if PNone \<in> set [job_id, job_input] then (PNone, Normal)
                         else (next_job, Normal)))
                | _ \<Rightarrow>
                    (next_job,
                     Raise (AttributeError ([CHR 0x27] @ type_name next_job @ [CHR 0x27]
                                            @ '' object has no attribute 'get'' @ [CHR 0x27])))))))"

text \<open>Lines 52 to 95: one iteration of the \<^verbatim>\<open>while\<close> loop.\<close>

definition get_job_iteration :: "bool \<Rightarrow> response outcome \<Rightarrow> pyval \<times> ctl" where
  "get_job_iteration retry resp =
    (case get_job_try retry resp of
       (next_job, c) \<Rightarrow>
        (let after_try =
               (if next_job = PNone then
                  (if \<not> retry then (next_job, Return PNone) else (next_job, Normal))
                else (next_job, Normal))
         in (case c of
               Normal \<Rightarrow> after_try
             | Raise err \<Rightarrow> (if is_Exception err then after_try else (next_job, Raise err))
             | Continue \<Rightarrow> (next_job, Continue)
             | Return v \<Rightarrow> (next_job, Return v))))"

text \<open>
  The loop runs against the responses the session will give, in order. It ends by a
  \<^verbatim>\<open>return\<close>, by an exception, or because \<^verbatim>\<open>next_job\<close> is no longer \<^verbatim>\<open>None\<close>; a loop that
  is still polling when the responses are used up is \<open>Starved\<close>. With the end comes the
  list of the URLs requested.
\<close>

datatype loop_end = Exit pyval | Returned pyval | Raised exn | Starved

fun get_job_loop :: "string \<Rightarrow> jobs \<Rightarrow> bool \<Rightarrow> response outcome list \<Rightarrow> loop_end \<times> string list" where
  "get_job_loop JOB_GET_URL job_list retry [] = (Starved, [])"
| "get_job_loop JOB_GET_URL job_list retry (resp # rest) =
     (let url = job_get_url JOB_GET_URL job_list
      in (case get_job_iteration retry resp of
            (next_job, Return v) \<Rightarrow> (Returned v, [url])
          | (next_job, Raise err) \<Rightarrow> (Raised err, [url])
          | (next_job, c) \<Rightarrow>
              (if next_job = PNone then
                 (case get_job_loop JOB_GET_URL job_list retry rest of
                    (fin, urls) \<Rightarrow> (fin, url # urls))
               else (Exit next_job, [url]))))"

text \<open>Lines 97 to 103: after the loop.\<close>

definition get_job_finish :: "jobs \<Rightarrow> pyval \<Rightarrow> pyval outcome \<times> jobs" where
  "get_job_finish job_list next_job =
    (case subscript next_job ''id'' of
       Raises err \<Rightarrow> (Raises err, job_list)
     | Returns v \<Rightarrow>
        (if truthy next_job then
           (case subscript next_job ''id'' of
              Raises err \<Rightarrow> (Raises err, job_list)
            | Returns job_id \<Rightarrow>
               (let job_list' = add_job job_list job_id
                in (case subscript next_job ''id'' of
                      Raises err \<Rightarrow> (Raises err, job_list')
                    | Returns v' \<Rightarrow> (Returns next_job, job_list'))))
         else (Returns next_job, job_list)))"

text \<open>
  The whole function: \<open>Some (Returns v)\<close> when it returns \<open>v\<close> (a job, or \<open>PNone\<close> for
  \<^verbatim>\<open>None\<close>), \<open>Some (Raises err)\<close> when it raises, \<open>None\<close> when it is still polling after
  the last response; with it the URLs requested and the tracked jobs afterwards.
\<close>

definition get_job :: "string \<Rightarrow> jobs \<Rightarrow> bool \<Rightarrow> response outcome list
    \<Rightarrow> pyval outcome option \<times> string list \<times> jobs" where
  "get_job JOB_GET_URL job_list retry responses =
    (case get_job_loop JOB_GET_URL job_list retry responses of
       (Exit next_job, urls) \<Rightarrow>
         (case get_job_finish job_list next_job of
            (res, job_list') \<Rightarrow> (Some res, urls, job_list'))
     | (Returned v, urls) \<Rightarrow> (Some (Returns v), urls, job_list)
     | (Raised err, urls) \<Rightarrow> (Some (Raises err), urls, job_list)
     | (Starved, urls) \<Rightarrow> (None, urls, job_list))"

section \<open>Vocabulary of the properties\<close>


text \<open>
  A handler that may change the job fails with \<open>err\<close>: the call raises it, or the awaiting
  of what the call returned does.
\<close>

definition st_fails_with :: "st_handler \<Rightarrow> job \<Rightarrow> exn \<Rightarrow> bool" where
  "st_fails_with handler job err \<longleftrightarrow>
     snd (handler job) = Raises err \<or> snd (handler job) = Returns (Awaitable (Raises err))"

text \<open>A handler that leaves the job as it is, seen as one that may change it.\<close>

definition keeping_job :: "handler \<Rightarrow> st_handler" where
  "keeping_job handler job = (job, handler job)"


text \<open>A field of a parsed body is missing: the key is not there, or its value is \<^verbatim>\<open>null\<close>.\<close>

definition missing_field :: "(string \<times> pyval) list \<Rightarrow> string \<Rightarrow> bool" where
  "missing_field d k \<longleftrightarrow> map_of d k = None \<or> map_of d k = Some PNone"

subsection \<open>Sample inputs\<close>

text \<open>
  A concrete environment: no \<^verbatim>\<open>RUNPOD_POD_HOSTNAME\<close> set, a size check that accepts every
  envelope, and a renderer that writes a dict of strings as \<^verbatim>\<open>json.dumps\<close> does when no
  character needs an escape.
\<close>

fun sample_dumps_items :: "(string \<times> pyval) list \<Rightarrow> string" where
  "sample_dumps_items [] = []"
| "sample_dumps_items ((k, v) # kvs) =
     ''\"'' @ k @ ''\": \"'' @ (case v of PStr s \<Rightarrow> s | _ \<Rightarrow> []) @ ''\"''
     @ (if kvs = [] then [] else '', '' @ sample_dumps_items kvs)"

definition sample_dumps :: "pyval \<Rightarrow> string" where
  "sample_dumps v = (case v of PDict d \<Rightarrow> ''{'' @ sample_dumps_items d @ ''}'' | _ \<Rightarrow> ''null'')"

definition sample_env :: env where
  "sample_env =
    \<lparr>environ = [''RUNPOD_POD_ID'' \<mapsto> ''worker-7''],
     runpod_version = ''1.2.0'',
     check_return_size = (\<lambda>run_result. None),
     json_dumps = sample_dumps,
     format_exc = (\<lambda>err. ''Traceback (most recent call last): '' @ exn_str err)\<rparr>"

definition sample_job :: job where
  "sample_job = [''id'' \<mapsto> PStr ''job-1'', ''input'' \<mapsto> PDict [(''prompt'', PStr ''hi'')]]"

definition job_without_id :: job where
  "job_without_id = [''input'' \<mapsto> PDict [(''prompt'', PStr ''hi'')]]"

definition ValueError_boom :: exn where
  "ValueError_boom = Exn True ''<class 'ValueError'>'' ''boom''"






definition handler_raising :: handler where
  "handler_raising job = Raises ValueError_boom"

definition KeyboardInterrupt_raised :: exn where
  "KeyboardInterrupt_raised = Exn False ''<class 'KeyboardInterrupt'>'' []"

definition CancelledError_raised :: exn where
  "CancelledError_raised = Exn False ''<class 'asyncio.exceptions.CancelledError'>'' []"

definition st_handler_echo :: st_handler where
  "st_handler_echo job = (job, Returns (Plain (PStr ''done'')))"

definition st_handler_raising :: st_handler where
  "st_handler_raising job = (job, Raises ValueError_boom)"

definition st_handler_awaited_raising :: st_handler where
  "st_handler_awaited_raising job = (job, Returns (Awaitable (Raises ValueError_boom)))"

definition st_handler_interrupted :: st_handler where
  "st_handler_interrupted job = (job, Raises KeyboardInterrupt_raised)"

definition st_handler_awaited_cancelled :: st_handler where
  "st_handler_awaited_cancelled job = (job, Returns (Awaitable (Raises CancelledError_raised)))"

text \<open>\<^verbatim>\<open>job.pop("id"); return None\<close> and \<^verbatim>\<open>del job["id"]; raise ValueError("boom")\<close>.\<close>

definition st_handler_popping_id :: st_handler where
  "st_handler_popping_id job = (job(''id'' := None), Returns (Plain PNone))"

definition st_handler_dropping_id :: st_handler where
  "st_handler_dropping_id job = (job(''id'' := None), Raises ValueError_boom)"

definition stream_three_then_raise :: stream_handler where
  "stream_three_then_raise =
    \<lparr>isasyncgenfunction = False,
     call = (\<lambda>job. (job, Returns (Iterator [Returns (PInt 1), Returns (PInt 2), Returns (PInt 3),
                                               Raises ValueError_boom])))\<rparr>"

definition stream_one_then_cancelled :: stream_handler where
  "stream_one_then_cancelled =
    \<lparr>isasyncgenfunction = False,
     call = (\<lambda>job. (job, Returns (Iterator [Returns (PInt 1), Raises CancelledError_raised])))\<rparr>"

text \<open>A plain callable that returns an async generator: \<^verbatim>\<open>lambda job: agen(job)\<close>.\<close>

definition stream_async_behind_callable :: stream_handler where
  "stream_async_behind_callable =
    \<lparr>isasyncgenfunction = False,
     call = (\<lambda>job. (job, Returns (AsyncIterator [Returns (PInt 1), Returns (PInt 2),
                                                    Returns (PInt 3), Raises ValueError_boom])))\<rparr>"





section \<open>Lemmas on the envelope\<close>



lemma normalize_dict_error:
  "normalize_output (PDict d) ''error'' =
     (if truthy (dict_get d ''error'') then Some (dict_get d ''error'') else None)"
  by (simp add: normalize_output_def dict_pop_def Let_def)







section \<open>Lemmas on handlers that change the job\<close>

lemma run_job_st_keeping_job: "run_job_st e (keeping_job handler) job = run_job e handler job"
  by (simp add: run_job_st_def run_job_st_try_def run_job_def run_job_try_def keeping_job_def
                Let_def
           split: outcome.splits handler_return.splits option.splits)

lemma run_job_st_try_job: "fst (run_job_st_try e handler job) = fst (handler job)"
  by (simp add: run_job_st_try_def Let_def
           split: prod.splits outcome.splits handler_return.splits option.splits)

lemma run_job_st_try_Raises:
  assumes "snd (run_job_st_try e handler job) = Raises err"
    and "fst (handler job) ''id'' \<noteq> None"
  shows "st_fails_with handler job err \<or> (\<exists>r. check_return_size e r = Some err)"
  using assms
  by (auto simp: run_job_st_try_def st_fails_with_def log_job_id_def Let_def
           split: prod.splits outcome.splits handler_return.splits option.splits)

lemma run_job_st_try_fails:
  assumes "st_fails_with handler job err"
  shows "snd (run_job_st_try e handler job) = Raises err"
  using assms
  by (auto simp: run_job_st_try_def st_fails_with_def split: prod.splits)

lemma run_job_st_captures:
  assumes "snd (run_job_st_try e handler job) = Raises err"
    and "is_Exception err"
    and "job ''id'' \<noteq> None"
    and "fst (handler job) ''id'' \<noteq> None"
  shows "run_job_st e handler job
           = Returns [''error'' \<mapsto> PStr (json_dumps e (PDict (error_info e err)))]"
proof -
  obtain job' tried where t: "run_job_st_try e handler job = (job', tried)"
    by (cases "run_job_st_try e handler job")
  with run_job_st_try_job [of e handler job] assms(4) have "job' ''id'' \<noteq> None"
    by simp
  with t assms(1,2,3) show ?thesis
    by (auto simp: run_job_st_def log_job_id_def run_job_except_def)
qed

section \<open>The claims on \<^verbatim>\<open>run_job\<close>\<close>

text \<open>
  Claim C1, as amended. The claim has \<^verbatim>\<open>run\<close> return an envelope for every handler and every
  job. On the code this holds when the job has an \<^verbatim>\<open>id\<close> key, the handler leaves that key
  in the job dict, and what the handler or the size check raises is an instance of
  \<^verbatim>\<open>Exception\<close>: then \<^verbatim>\<open>run_job\<close> returns, and an exception raised in the guarded body is
  found serialized under \<^verbatim>\<open>error\<close> in what it returns.
\<close>

theorem run_job_st_returns:
  assumes "job ''id'' \<noteq> None"
    and "fst (handler job) ''id'' \<noteq> None"
    and "\<forall>err. st_fails_with handler job err \<longrightarrow> is_Exception err"
    and "\<forall>r err. check_return_size e r = Some err \<longrightarrow> is_Exception err"
  shows "\<exists>r. run_job_st e handler job = Returns r \<and>
           (\<forall>err. snd (run_job_st_try e handler job) = Raises err \<longrightarrow>
                  r = [''error'' \<mapsto> PStr (json_dumps e (PDict (error_info e err)))])"
proof (cases "snd (run_job_st_try e handler job)")
  case (Returns r)
  obtain job' tried where t: "run_job_st_try e handler job = (job', tried)"
    by (cases "run_job_st_try e handler job")
  with run_job_st_try_job [of e handler job] assms(2) have "job' ''id'' \<noteq> None"
    by simp
  with t Returns assms(1) show ?thesis
    by (auto simp: run_job_st_def log_job_id_def)
next
  case (Raises err)
  with run_job_st_try_Raises assms(2,3,4) have "is_Exception err" by blast
  with Raises assms(1,2) run_job_st_captures show ?thesis by simp
qed

theorem run_job_st_returns_witness:
  "sample_job ''id'' \<noteq> None
   \<and> fst (st_handler_awaited_raising sample_job) ''id'' \<noteq> None
   \<and> snd (run_job_st_try sample_env st_handler_awaited_raising sample_job) = Raises ValueError_boom
   \<and> is_Exception ValueError_boom
   \<and> run_job_st sample_env st_handler_awaited_raising sample_job
       = Returns [''error'' \<mapsto> PStr (json_dumps sample_env
                                        (PDict (error_info sample_env ValueError_boom)))]"
proof -
  have a: "sample_job ''id'' \<noteq> None"
    by (simp add: sample_job_def)
  have k: "fst (st_handler_awaited_raising sample_job) ''id'' \<noteq> None"
    by (simp add: st_handler_awaited_raising_def sample_job_def)
  have b: "\<forall>err. st_fails_with st_handler_awaited_raising sample_job err \<longrightarrow> is_Exception err"
    by (simp add: st_fails_with_def st_handler_awaited_raising_def ValueError_boom_def)
  have c: "\<forall>r err. check_return_size sample_env r = Some err \<longrightarrow> is_Exception err"
    by (simp add: sample_env_def)
  have t: "snd (run_job_st_try sample_env st_handler_awaited_raising sample_job)
             = Raises ValueError_boom"
    by (simp add: run_job_st_try_def st_handler_awaited_raising_def)
  have x: "is_Exception ValueError_boom"
    by (simp add: ValueError_boom_def)
  from run_job_st_returns [OF a k b c]
  obtain r where "run_job_st sample_env st_handler_awaited_raising sample_job = Returns r"
    and "\<forall>err. snd (run_job_st_try sample_env st_handler_awaited_raising sample_job) = Raises err
           \<longrightarrow> r = [''error'' \<mapsto> PStr (json_dumps sample_env (PDict (error_info sample_env err)))]"
    by blast
  with t have g: "run_job_st sample_env st_handler_awaited_raising sample_job
       = Returns [''error'' \<mapsto> PStr (json_dumps sample_env
                                        (PDict (error_info sample_env ValueError_boom)))]"
    by simp
  show ?thesis
    by (intro conjI a k t x g)
qed

text \<open>
  The claim as it stands fails three ways. On a job without \<^verbatim>\<open>id\<close> the log line before
  the \<^verbatim>\<open>try\<close> raises \<^verbatim>\<open>KeyError\<close>; a \<^verbatim>\<open>KeyboardInterrupt\<close> raised by the handler is not an
  \<^verbatim>\<open>Exception\<close> and passes through the \<^verbatim>\<open>except\<close> clause; and after a handler that has
  taken \<^verbatim>\<open>id\<close> out of the job, the log lines of the \<^verbatim>\<open>except\<close> and \<^verbatim>\<open>finally\<close> clauses
  raise \<^verbatim>\<open>KeyError\<close>. Each time the caller gets the exception, not an envelope.
\<close>

theorem run_job_st_raises_counterexample:
  "run_job_st sample_env st_handler_echo job_without_id = Raises (KeyError ''id'')
   \<and> run_job_st sample_env st_handler_interrupted sample_job = Raises KeyboardInterrupt_raised
   \<and> run_job_st sample_env st_handler_popping_id sample_job = Raises (KeyError ''id'')"
proof (intro conjI)
  show "run_job_st sample_env st_handler_echo job_without_id = Raises (KeyError ''id'')"
    by (simp add: run_job_st_def log_job_id_def job_without_id_def)
  show "run_job_st sample_env st_handler_interrupted sample_job = Raises KeyboardInterrupt_raised"
    by (simp add: run_job_st_def run_job_st_try_def log_job_id_def sample_job_def
                  st_handler_interrupted_def KeyboardInterrupt_raised_def)
  show "run_job_st sample_env st_handler_popping_id sample_job = Raises (KeyError ''id'')"
    by (simp add: run_job_st_def run_job_st_try_def run_job_except_def log_job_id_def
                  sample_job_def st_handler_popping_id_def KeyError_def)
qed







text \<open>
  Claim C4, as amended. When the handler raises an instance of \<^verbatim>\<open>Exception\<close> (the call
  raises it, or the awaiting of what the call returned does), on a job that has an \<^verbatim>\<open>id\<close>
  key which the handler leaves in place, \<^verbatim>\<open>run_job\<close> returns an envelope whose only key is
  \<^verbatim>\<open>error\<close>; its value is the serialization of a record with exactly the six fields
  \<^verbatim>\<open>error_type\<close>, \<^verbatim>\<open>error_message\<close>, \<^verbatim>\<open>error_traceback\<close>, \<^verbatim>\<open>hostname\<close>, \<^verbatim>\<open>worker_id\<close>
  and \<^verbatim>\<open>runpod_version\<close>.
\<close>

theorem run_job_st_handler_raises:
  assumes "st_fails_with handler job err"
    and "is_Exception err"
    and "job ''id'' \<noteq> None"
    and "fst (handler job) ''id'' \<noteq> None"
  shows "\<exists>info. run_job_st e handler job
                   = Returns [''error'' \<mapsto> PStr (json_dumps e (PDict info))]
           \<and> map fst info = [''error_type'', ''error_message'', ''error_traceback'',
                              ''hostname'', ''worker_id'', ''runpod_version'']
           \<and> [''error'' \<mapsto> PStr (json_dumps e (PDict info))] ''output'' = None"
proof -
  have "snd (run_job_st_try e handler job) = Raises err"
    using assms(1) by (rule run_job_st_try_fails)
  then have "run_job_st e handler job
      = Returns [''error'' \<mapsto> PStr (json_dumps e (PDict (error_info e err)))]"
    using assms(2,3,4) by (rule run_job_st_captures)
  moreover have "map fst (error_info e err) = [''error_type'', ''error_message'',
      ''error_traceback'', ''hostname'', ''worker_id'', ''runpod_version'']"
    by (simp add: error_info_def)
  ultimately show ?thesis by auto
qed

theorem run_job_st_handler_raises_witness:
  "st_fails_with st_handler_raising sample_job ValueError_boom
   \<and> is_Exception ValueError_boom
   \<and> sample_job ''id'' \<noteq> None
   \<and> fst (st_handler_raising sample_job) ''id'' \<noteq> None
   \<and> (\<exists>info. run_job_st sample_env st_handler_raising sample_job
                = Returns [''error'' \<mapsto> PStr (json_dumps sample_env (PDict info))]
           \<and> map fst info = [''error_type'', ''error_message'', ''error_traceback'',
                              ''hostname'', ''worker_id'', ''runpod_version''])"
proof -
  have a: "st_fails_with st_handler_raising sample_job ValueError_boom"
    by (simp add: st_fails_with_def st_handler_raising_def)
  have b: "is_Exception ValueError_boom" by (simp add: ValueError_boom_def)
  have c: "sample_job ''id'' \<noteq> None" by (simp add: sample_job_def)
  have k: "fst (st_handler_raising sample_job) ''id'' \<noteq> None"
    by (simp add: st_handler_raising_def sample_job_def)
  from run_job_st_handler_raises [OF a b c k, of sample_env]
  obtain info where "run_job_st sample_env st_handler_raising sample_job
                = Returns [''error'' \<mapsto> PStr (json_dumps sample_env (PDict info))]"
    and "map fst info = [''error_type'', ''error_message'', ''error_traceback'',
                              ''hostname'', ''worker_id'', ''runpod_version'']"
    by auto
  with a b c k show ?thesis by auto
qed

text \<open>
  The claim as it stands fails on a handler whose awaiting raises
  \<^verbatim>\<open>asyncio.CancelledError\<close>, which is not an \<^verbatim>\<open>Exception\<close> and leaves \<^verbatim>\<open>run_job\<close> as
  it is; and on a handler that deletes \<^verbatim>\<open>job["id"]\<close> and then raises \<^verbatim>\<open>ValueError\<close>, after
  which the log line of the \<^verbatim>\<open>except\<close> clause raises \<^verbatim>\<open>KeyError\<close>. Neither time is an
  envelope returned.
\<close>

theorem run_job_st_escapes_counterexample:
  "run_job_st sample_env st_handler_awaited_cancelled sample_job = Raises CancelledError_raised
   \<and> run_job_st sample_env st_handler_dropping_id sample_job = Raises (KeyError ''id'')"
proof (intro conjI)
  show "run_job_st sample_env st_handler_awaited_cancelled sample_job = Raises CancelledError_raised"
    by (simp add: run_job_st_def run_job_st_try_def log_job_id_def sample_job_def
                  st_handler_awaited_cancelled_def CancelledError_raised_def)
  show "run_job_st sample_env st_handler_dropping_id sample_job = Raises (KeyError ''id'')"
    by (simp add: run_job_st_def run_job_st_try_def run_job_except_def log_job_id_def
                  sample_job_def st_handler_dropping_id_def ValueError_boom_def)
qed





text \<open>
  Claim C10. \<^verbatim>\<open>run_job\<close> reads \<^verbatim>\<open>job["id"]\<close> for its first log line, before the \<^verbatim>\<open>try\<close>
  block: on a job dict without the key \<^verbatim>\<open>id\<close> it raises \<^verbatim>\<open>KeyError\<close> and returns no
  envelope, whatever the handler. Returning an envelope therefore requires the key.
\<close>

theorem run_job_without_id_raises:
  assumes "job ''id'' = None"
  shows "run_job e handler job = Raises (KeyError ''id'')
         \<and> (\<forall>r. run_job e handler job \<noteq> Returns r)"
  using assms by (simp add: run_job_def log_job_id_def)

theorem run_job_without_id_raises_witness:
  "job_without_id ''id'' = None
   \<and> run_job sample_env handler_raising job_without_id = Raises (KeyError ''id'')
   \<and> (\<forall>r. run_job sample_env handler_raising job_without_id \<noteq> Returns r)"
  using run_job_without_id_raises [of job_without_id sample_env handler_raising]
  by (simp add: job_without_id_def)

section \<open>Lemmas on the streaming loop\<close>

lemma for_partials_raise:
  "for_partials (map Returns vs @ Raises err # rest)
     = (map (\<lambda>v. [''output'' \<mapsto> v]) vs, Raises err)"
  by (induction vs) auto

section \<open>Lemmas on the polling loop\<close>

lemma dict_get_PNone: "dict_get d k = PNone \<longleftrightarrow> missing_field d k"
  by (auto simp: dict_get_def missing_field_def split: option.splits)

lemma PNone_dict_get: "PNone = dict_get d k \<longleftrightarrow> missing_field d k"
  by (auto simp: dict_get_def missing_field_def split: option.splits)








lemma get_job_malformed_once:
  assumes "missing_field d ''id'' \<or> missing_field d ''input''"
  shows "get_job url js False (Returns (Response 200 (Returns (PDict d))) # rest) =
    (Some (Returns PNone), [job_get_url url js], js)"
  using assms
  by (auto simp: get_job_def get_job_iteration_def get_job_try_def Let_def
                 dict_get_PNone PNone_dict_get
           split: prod.splits loop_end.splits)

section \<open>The claim on \<^verbatim>\<open>run_job_generator\<close>\<close>

text \<open>
  Claim C5, as amended. The handler is an async generator function whose producer is
  consumed by \<^verbatim>\<open>async for\<close>, or it is not one and returns a producer to consume by
  \<^verbatim>\<open>for\<close>. When the producer yields the \<open>n\<close> values \<open>vs\<close> and then raises an instance of
  \<^verbatim>\<open>Exception\<close>, and the job dict has its \<^verbatim>\<open>id\<close> key when the \<^verbatim>\<open>try\<close> block is left,
  \<^verbatim>\<open>run_job_generator\<close> yields \<open>n\<close> envelopes \<^verbatim>\<open>{"output": partial}\<close>, in the order of
  production, then one envelope \<^verbatim>\<open>{"error": ...}\<close>, and ends there: what the producer
  would have given after the exception is never asked for. On the producer that yields
  1, 2, 3 and raises on the fourth item this makes four envelopes.
\<close>

theorem run_job_generator_raise_after_n:
  assumes "call handler job = (job', Returns job_output)"
    and "(isasyncgenfunction handler \<and> job_output = AsyncIterator p)
         \<or> (\<not> isasyncgenfunction handler \<and> job_output = Iterator p)"
    and "p = map Returns vs @ Raises err # rest"
    and "is_Exception err"
    and "job' ''id'' \<noteq> None"
  shows "run_job_generator e handler job =
           (map (\<lambda>partial. [''output'' \<mapsto> partial]) vs @ [error_envelope e err], Returns ())"
proof -
  have "run_job_generator_try handler job = (job', for_partials p)"
    using assms(1,2) by (auto simp: run_job_generator_try_def)
  then have t: "run_job_generator_try handler job
      = (job', map (\<lambda>partial. [''output'' \<mapsto> partial]) vs, Raises err)"
    using assms(3) by (simp add: for_partials_raise)
  obtain v where v: "job' ''id'' = Some v"
    using assms(5) by auto
  show ?thesis
    using assms(4) v by (simp add: run_job_generator_def t log_job_id_def)
qed

theorem run_job_generator_raise_after_n_witness:
  "call stream_three_then_raise sample_job
     = (sample_job, Returns (Iterator [Returns (PInt 1), Returns (PInt 2), Returns (PInt 3),
                                       Raises ValueError_boom]))
   \<and> is_Exception ValueError_boom
   \<and> sample_job ''id'' \<noteq> None
   \<and> run_job_generator sample_env stream_three_then_raise sample_job =
       ([[''output'' \<mapsto> PInt 1], [''output'' \<mapsto> PInt 2], [''output'' \<mapsto> PInt 3],
         error_envelope sample_env ValueError_boom],
        Returns ())
   \<and> length (fst (run_job_generator sample_env stream_three_then_raise sample_job)) = 4"
proof -
  have a: "call stream_three_then_raise sample_job
     = (sample_job, Returns (Iterator [Returns (PInt 1), Returns (PInt 2), Returns (PInt 3),
                                       Raises ValueError_boom]))"
    by (simp add: stream_three_then_raise_def)
  have m: "(isasyncgenfunction stream_three_then_raise
              \<and> Iterator [Returns (PInt 1), Returns (PInt 2), Returns (PInt 3),
                           Raises ValueError_boom]
                  = AsyncIterator [Returns (PInt 1), Returns (PInt 2), Returns (PInt 3),
                                   Raises ValueError_boom])
            \<or> (\<not> isasyncgenfunction stream_three_then_raise
              \<and> Iterator [Returns (PInt 1), Returns (PInt 2), Returns (PInt 3),
                           Raises ValueError_boom]
                  = Iterator [Returns (PInt 1), Returns (PInt 2), Returns (PInt 3),
                              Raises ValueError_boom])"
    by (simp add: stream_three_then_raise_def)
  have b: "[Returns (PInt 1), Returns (PInt 2), Returns (PInt 3), Raises ValueError_boom]
       = map Returns [PInt 1, PInt 2, PInt 3] @ Raises ValueError_boom # []"
    by simp
  have c: "is_Exception ValueError_boom" by (simp add: ValueError_boom_def)
  have d: "sample_job ''id'' \<noteq> None" by (simp add: sample_job_def)
  have r: "run_job_generator sample_env stream_three_then_raise sample_job =
       ([[''output'' \<mapsto> PInt 1], [''output'' \<mapsto> PInt 2], [''output'' \<mapsto> PInt 3],
         error_envelope sample_env ValueError_boom],
        Returns ())"
    unfolding run_job_generator_raise_after_n [OF a m b c d, of sample_env] by simp
  have l: "length (fst (run_job_generator sample_env stream_three_then_raise sample_job)) = 4"
    unfolding r by simp
  show ?thesis
    by (intro conjI a c d r l)
qed

text \<open>
  The claim as it stands fails three ways. A producer that yields 1 and then raises
  \<^verbatim>\<open>asyncio.CancelledError\<close> gives one output envelope and no error envelope: the
  exception leaves the generator. An async generator behind a plain callable is handed
  to \<^verbatim>\<open>for\<close>, which raises \<^verbatim>\<open>TypeError\<close> at once: one error envelope and none of the
  three outputs. And on a job without \<^verbatim>\<open>id\<close> the log line of the \<^verbatim>\<open>except\<close> clause
  raises \<^verbatim>\<open>KeyError\<close> before the error envelope is yielded.
\<close>

theorem run_job_generator_counterexample:
  "run_job_generator sample_env stream_one_then_cancelled sample_job
     = ([[''output'' \<mapsto> PInt 1]], Raises CancelledError_raised)
   \<and> run_job_generator sample_env stream_async_behind_callable sample_job
     = ([error_envelope sample_env not_iterable], Returns ())
   \<and> run_job_generator sample_env stream_three_then_raise job_without_id
     = ([[''output'' \<mapsto> PInt 1], [''output'' \<mapsto> PInt 2], [''output'' \<mapsto> PInt 3]],
        Raises (KeyError ''id''))"
proof (intro conjI)
  show "run_job_generator sample_env stream_one_then_cancelled sample_job
     = ([[''output'' \<mapsto> PInt 1]], Raises CancelledError_raised)"
    by (simp add: run_job_generator_def run_job_generator_try_def log_job_id_def
                  stream_one_then_cancelled_def sample_job_def CancelledError_raised_def)
  show "run_job_generator sample_env stream_async_behind_callable sample_job
     = ([error_envelope sample_env not_iterable], Returns ())"
    by (simp add: run_job_generator_def run_job_generator_try_def log_job_id_def
                  stream_async_behind_callable_def sample_job_def not_iterable_def TypeError_def)
  show "run_job_generator sample_env stream_three_then_raise job_without_id
     = ([[''output'' \<mapsto> PInt 1], [''output'' \<mapsto> PInt 2], [''output'' \<mapsto> PInt 3]],
        Raises (KeyError ''id''))"
    by (simp add: run_job_generator_def run_job_generator_try_def log_job_id_def
                  stream_three_then_raise_def job_without_id_def ValueError_boom_def)
qed

section \<open>The claims on \<^verbatim>\<open>get_job\<close>\<close>




text \<open>
  Claim C7. With \<^verbatim>\<open>retry=False\<close>, a first response of status 204 makes \<^verbatim>\<open>get_job\<close> return
  \<^verbatim>\<open>None\<close> at once: one URL has been requested, the responses that would follow are not
  asked for, and the tracked jobs are as before.
\<close>

theorem get_job_no_retry_204:
  "get_job JOB_GET_URL job_list False (Returns (Response 204 body) # rest)
     = (Some (Returns PNone), [job_get_url JOB_GET_URL job_list], job_list)"
  by (simp add: get_job_def get_job_iteration_def get_job_try_def)

end
